theory Spec2Isabelle
  imports Main
begin

section \<open>Python string operations used by css_inliner.py\<close>

text \<open>
  A Python \<open>str\<close> is modelled as a \<^typ>\<open>string\<close>; a \<^typ>\<open>char\<close> stands for the code
  point of the same number, so the model covers the strings whose code points are below 256.
  \<open>isspace\<close> lists the code points below 256 that \<open>str.strip()\<close> removes, and
  \<open>is_line_boundary\<close> those at which \<open>str.splitlines()\<close> breaks (\<open>\r\n\<close> counts as one
  boundary).
\<close>

definition isspace :: "char \<Rightarrow> bool" where
  "isspace c = (c \<in> set [CHR 0x09, CHR 0x0A, CHR 0x0B, CHR 0x0C, CHR 0x0D,
                          CHR 0x1C, CHR 0x1D, CHR 0x1E, CHR 0x1F, CHR '' '',
                          CHR 0x85, CHR 0xA0])"

definition is_line_boundary :: "char \<Rightarrow> bool" where
  "is_line_boundary c = (c \<in> set [CHR 0x0A, CHR 0x0B, CHR 0x0C, CHR 0x0D,
                                   CHR 0x1C, CHR 0x1D, CHR 0x1E, CHR 0x85])"

text \<open>\<open>s.strip()\<close>: whitespace removed at both ends.\<close>

definition str_strip :: "string \<Rightarrow> string" where
  "str_strip s = rev (dropWhile isspace (rev (dropWhile isspace s)))"

text \<open>\<open>s.rstrip(c)\<close> for a one-character argument: every trailing \<open>c\<close> removed.\<close>

definition str_rstrip :: "char \<Rightarrow> string \<Rightarrow> string" where
  "str_rstrip c s = rev (dropWhile (\<lambda>x. x = c) (rev s))"

text \<open>\<open>s.replace(c, '')\<close> for a one-character \<open>c\<close>.\<close>

definition str_remove :: "char \<Rightarrow> string \<Rightarrow> string" where
  "str_remove c s = filter (\<lambda>x. x \<noteq> c) s"

text \<open>\<open>c in s\<close> for a one-character \<open>c\<close>.\<close>

definition str_contains :: "char \<Rightarrow> string \<Rightarrow> bool" where
  "str_contains c s = (c \<in> set s)"

text \<open>
  \<open>s.split(sep)\<close> for a one-character separator: always at least one piece, and one more
  piece than there are separators (\<open>''a}''.split(''}'')\<close> is \<open>[''a'', '''']\<close>).
\<close>

fun str_split :: "char \<Rightarrow> string \<Rightarrow> string list" where
  "str_split sep [] = [[]]"
| "str_split sep (c # cs) =
     (if c = sep then [] # str_split sep cs
      else (case str_split sep cs of
              [] \<Rightarrow> [[c]]
            | piece # pieces \<Rightarrow> (c # piece) # pieces))"

text \<open>\<open>sep.join(xs)\<close>.\<close>

fun str_join :: "string \<Rightarrow> string list \<Rightarrow> string" where
  "str_join sep [] = []"
| "str_join sep [x] = x"
| "str_join sep (x # y # ys) = x @ sep @ str_join sep (y # ys)"

text \<open>
  \<open>s.splitlines()\<close>: \<open>cur\<close> holds the characters of the line being read. The line
  boundary itself is dropped, an empty text has no lines, and a boundary at the very end
  opens no further line.
\<close>

fun splitlines_from :: "string \<Rightarrow> string \<Rightarrow> string list" where
  "splitlines_from cur [] = (if cur = [] then [] else [cur])"
| "splitlines_from cur [c] = (if is_line_boundary c then [cur] else [cur @ [c]])"
| "splitlines_from cur (c # d # cs) =
     (if c = CHR 0x0D \<and> d = CHR 0x0A then cur # splitlines_from [] cs
      else if is_line_boundary c then cur # splitlines_from [] (d # cs)
      else splitlines_from (cur @ [c]) (d # cs))"

definition str_splitlines :: "string \<Rightarrow> string list" where
  "str_splitlines s = splitlines_from [] s"


section \<open>Python dictionaries with their insertion order\<close>

text \<open>
  A \<open>dict\<close> is an association list in insertion order with distinct keys.
  \<open>dict_setdefault\<close> is \<open>d.setdefault(k, v)\<close>, \<open>dict_set\<close> is \<open>d[k] = v\<close> (a present key
  keeps its position) and \<open>dict_append\<close> is \<open>d[k].append(x)\<close>, which the source only
  reaches after \<open>d.setdefault(k, [])\<close>, so the key is present.
\<close>

definition dict_setdefault :: "'k \<Rightarrow> 'v \<Rightarrow> ('k \<times> 'v) list \<Rightarrow> ('k \<times> 'v) list" where
  "dict_setdefault k v d = (if k \<in> fst ` set d then d else d @ [(k, v)])"

fun dict_set :: "'k \<Rightarrow> 'v \<Rightarrow> ('k \<times> 'v) list \<Rightarrow> ('k \<times> 'v) list" where
  "dict_set k v [] = [(k, v)]"
| "dict_set k v ((k', v') # d) =
     (if k' = k then (k', v) # d else (k', v') # dict_set k v d)"

fun dict_append :: "'k \<Rightarrow> 'a \<Rightarrow> ('k \<times> 'a list) list \<Rightarrow> ('k \<times> 'a list) list" where
  "dict_append k x [] = []"
| "dict_append k x ((k', xs) # d) =
     (if k' = k then (k', xs @ [x]) # d else (k', xs) # dict_append k x d)"


section \<open>The data of css_inliner.py\<close>

type_synonym CssSelector = string
type_synonym CssSelectors = "string list"
type_synonym CssStyleDefinition = "string list"
type_synonym CssInlineStyleDefinition = string
type_synonym CssDict = "(CssSelector \<times> CssStyleDefinition) list"
type_synonym InlineCssDict = "(CssSelectors \<times> CssInlineStyleDefinition) list"

record InlineCSSArgs =
  input_html :: string
  output_html :: string
  silent :: bool

record ProcessedDeclarations =
  successful_declaration :: CssDict
  failed_declaration :: "string list"

text \<open>
  The exceptions that the code meets: \<open>xml.dom.SyntaxErr\<close> (caught in
  \<open>process_css_declarations\<close>), \<open>AttributeError\<close> (caught around the reading of a rule's
  attributes, raised by \<open>None.split\<close> in the splitter) and any other exception of the
  CSS parser, which is built with \<open>raiseExceptions=True\<close> and whose other exceptions
  nothing catches.
\<close>

datatype exn = SyntaxErr | AttributeError | OtherError string

text \<open>
  A rule object of a parsed style sheet, as far as the code reads it: \<open>rule.selectorText\<close>
  and \<open>rule.style.cssText\<close>. \<open>None\<close> is an attribute whose access raises
  \<open>AttributeError\<close> (a comment or an at-rule has no \<open>selectorText\<close>).
\<close>

record css_rule =
  selectorText :: "string option"
  style_cssText :: "string option"

text \<open>\<open>parser.parseString\<close>: the external CSS parser, a parameter of the model.\<close>

type_synonym parse_string = "string \<Rightarrow> exn + css_rule list"

text \<open>
  The value of an element's \<open>style\<close> attribute as \<open>item.get("style")\<close> returns it: absent
  (\<open>None\<close>), a string, or a list of tokens.
\<close>

datatype attr_value = AttrStr string | AttrList "string list"

text \<open>
  The document tree as far as the code touches it: the \<open><style>\<close> elements that
  \<open>soup.find_all("style")\<close> returns, in document order, each by its \<open>.string\<close> (\<open>None\<close>
  when the element has no text); the \<open>style\<close> attribute of every element, by element
  number; whether \<open>soup.head\<close> exists; and the elements appended to the head, each by the
  list of its text children. \<open>soup.select\<close> is the external selector engine, a parameter
  that reads the current tree and returns the numbers of the matching elements.
\<close>

record soup =
  style_tags :: "string option list"
  style_attr :: "nat \<Rightarrow> attr_value option"
  has_head :: bool
  head_appended :: "string list list"

type_synonym select = "soup \<Rightarrow> string \<Rightarrow> nat list"


section \<open>The functions of css_inliner.py\<close>

definition add_closing_tag :: "string \<Rightarrow> string" where
  "add_closing_tag declaration = str_strip (declaration @ ''}'')"

definition remove_style_tags_from_soup :: "soup \<Rightarrow> soup" where
  "remove_style_tags_from_soup s = s\<lparr>style_tags := []\<rparr>"

text \<open>The local \<open>formatted_css_items\<close> of \<open>format_css_content_for_inline\<close>.\<close>

definition formatted_css_items :: "string \<Rightarrow> string list" where
  "formatted_css_items css_text =
     (let css_content_items = str_splitlines (str_strip css_text)
      in map (\<lambda>item. str_remove (CHR '';'') item @ '';'') css_content_items)"

definition format_css_content_for_inline :: "string \<Rightarrow> string" where
  "format_css_content_for_inline css_text = str_join '' '' (formatted_css_items css_text)"

text \<open>
  The list comprehension of \<open>divide_declarations_from_style_tags\<close>: \<open>tag.string.split("}")\<close>
  raises \<open>AttributeError\<close> at the first tag whose \<open>.string\<close> is \<open>None\<close>.
\<close>

fun individual_declarations :: "string option list \<Rightarrow> exn + string list list" where
  "individual_declarations [] = Inr []"
| "individual_declarations (None # tags) = Inl AttributeError"
| "individual_declarations (Some text # tags) =
     (case individual_declarations tags of
        Inl e \<Rightarrow> Inl e
      | Inr rest \<Rightarrow> Inr (map add_closing_tag (str_split (CHR ''}'') text) # rest))"

definition divide_declarations_from_style_tags :: "string option list \<Rightarrow> exn + string list" where
  "divide_declarations_from_style_tags tags =
     (case individual_declarations tags of
        Inl e \<Rightarrow> Inl e
      | Inr individual \<Rightarrow> Inr (filter (\<lambda>x. str_strip x \<noteq> ''}'') (concat individual)))"

text \<open>
  The body of the inner loop of \<open>process_css_declarations\<close>: a rule whose attributes
  cannot be read is skipped before the record is touched.
\<close>

definition record_rule :: "css_rule \<Rightarrow> CssDict \<Rightarrow> CssDict" where
  "record_rule css_dict css_declarations =
     (case selectorText css_dict of
        None \<Rightarrow> css_declarations
      | Some css_selector \<Rightarrow>
          (case style_cssText css_dict of
             None \<Rightarrow> css_declarations
           | Some css_text \<Rightarrow>
               dict_append css_selector (format_css_content_for_inline css_text)
                 (dict_setdefault css_selector [] css_declarations)))"

fun record_rules :: "css_rule list \<Rightarrow> CssDict \<Rightarrow> CssDict" where
  "record_rules [] css_declarations = css_declarations"
| "record_rules (css_dict # parsed_css) css_declarations =
     record_rules parsed_css (record_rule css_dict css_declarations)"

fun process_loop ::
  "parse_string \<Rightarrow> string list \<Rightarrow> string list \<Rightarrow> CssDict \<Rightarrow> exn + ProcessedDeclarations" where
  "process_loop parser [] failed css_declarations =
     Inr \<lparr>successful_declaration = css_declarations, failed_declaration = failed\<rparr>"
| "process_loop parser (declaration # declarations) failed css_declarations =
     (case parser declaration of
        Inl e \<Rightarrow>
          (if e = SyntaxErr
           then process_loop parser declarations (failed @ [declaration]) css_declarations
           else Inl e)
      | Inr parsed_css \<Rightarrow>
          process_loop parser declarations failed (record_rules parsed_css css_declarations))"

definition process_css_declarations ::
  "parse_string \<Rightarrow> string list \<Rightarrow> exn + ProcessedDeclarations" where
  "process_css_declarations parser declarations = process_loop parser declarations [] []"

fun inline_loop :: "CssDict \<Rightarrow> InlineCssDict \<Rightarrow> InlineCssDict" where
  "inline_loop [] result = result"
| "inline_loop ((selector, declarations) # css_declarations) result =
     inline_loop css_declarations
       (dict_set (map str_strip (str_split (CHR '','') selector))
                 (str_join '' '' declarations) result)"

definition inline_css_declarations :: "CssDict \<Rightarrow> InlineCssDict" where
  "inline_css_declarations css_declarations = inline_loop css_declarations []"

text \<open>
  \<open>not previous_style_attr\<close>: Python's truth test fails for \<open>None\<close>, for the empty string
  and for the empty list.
\<close>

definition is_falsy :: "attr_value option \<Rightarrow> bool" where
  "is_falsy v = (v = None \<or> v = Some (AttrStr []) \<or> v = Some (AttrList []))"

text \<open>
  The body of the loop over the matched elements: the new \<open>style\<close> value of one element.
  \<open>new_style_attr\<close> starts as the empty string and keeps it when no branch is taken.
\<close>

definition new_style_attr :: "attr_value option \<Rightarrow> string \<Rightarrow> string" where
  "new_style_attr previous_style_attr inline_style =
     (if is_falsy previous_style_attr then str_rstrip (CHR '';'') inline_style
      else (case previous_style_attr of
              Some (AttrList tokens) \<Rightarrow>
                str_rstrip (CHR '';'') (str_join ''; '' (tokens @ [inline_style]))
            | Some (AttrStr text) \<Rightarrow>
                str_rstrip (CHR '';'') (str_join ''; '' [text, inline_style])
            | None \<Rightarrow> []))"

definition style_item :: "string \<Rightarrow> soup \<Rightarrow> nat \<Rightarrow> soup" where
  "style_item inline_style s item =
     s\<lparr>style_attr := (style_attr s)
          (item \<mapsto> AttrStr (new_style_attr (style_attr s item) inline_style))\<rparr>"

fun style_items :: "string \<Rightarrow> soup \<Rightarrow> nat list \<Rightarrow> soup" where
  "style_items inline_style s [] = s"
| "style_items inline_style s (item # found_styled_items) =
     style_items inline_style (style_item inline_style s item) found_styled_items"

fun apply_selectors_to_elements_as_inline_css ::
  "select \<Rightarrow> soup \<Rightarrow> string list \<Rightarrow> string \<Rightarrow> soup" where
  "apply_selectors_to_elements_as_inline_css sel s [] inline_style = s"
| "apply_selectors_to_elements_as_inline_css sel s (selector # no_pseudo_selectors) inline_style =
     apply_selectors_to_elements_as_inline_css sel
       (style_items inline_style s (sel s selector)) no_pseudo_selectors inline_style"

text \<open>
  \<open>insert_unprocessed_declarations\<close>: a new \<open><style>\<close> element whose text children are the
  failed fragments in order, appended to the head when there is one.
\<close>

fun append_children :: "string list \<Rightarrow> string list \<Rightarrow> string list" where
  "append_children leftover_style_tag [] = leftover_style_tag"
| "append_children leftover_style_tag (declaration # failed) =
     append_children (leftover_style_tag @ [declaration]) failed"

definition insert_unprocessed_declarations :: "soup \<Rightarrow> string list \<Rightarrow> soup" where
  "insert_unprocessed_declarations s failed =
     (let leftover_style_tag = append_children [] failed
      in if has_head s then s\<lparr>head_appended := head_appended s @ [leftover_style_tag]\<rparr>
         else s)"

text \<open>
  Modelled from the spec: \<open>logging.CRITICAL\<close> and \<open>logging.FATAL\<close> belong to Python's
  logging module, not to this repository; they denote the same level, 50.
\<close>

definition CRITICAL :: int where
  "CRITICAL = 50"

definition FATAL :: int where
  "FATAL = CRITICAL"

text \<open>The level that \<open>main\<close> gives to the logger of the CSS parser.\<close>

definition log_level :: "InlineCSSArgs \<Rightarrow> int" where
  "log_level args = (if silent args then CRITICAL else FATAL)"

text \<open>
  The loop of \<open>main\<close> over the groups: it fills \<open>pseudo_style_declarations\<close> and applies the
  plain selectors of each group to the tree.
\<close>

fun resolve_loop ::
  "select \<Rightarrow> InlineCssDict \<Rightarrow> InlineCssDict \<Rightarrow> soup \<Rightarrow> InlineCssDict \<times> soup" where
  "resolve_loop sel [] pseudo_style_declarations s = (pseudo_style_declarations, s)"
| "resolve_loop sel ((selectors, inline_style) # inlined) pseudo_style_declarations s =
     (let pseudo_selectors = filter (\<lambda>x. str_contains (CHR '':'') x) selectors;
          pseudo' = dict_setdefault pseudo_selectors inline_style pseudo_style_declarations;
          no_pseudo_selectors = filter (\<lambda>x. \<not> str_contains (CHR '':'') x) selectors
      in if no_pseudo_selectors = [] then resolve_loop sel inlined pseudo' s
         else resolve_loop sel inlined pseudo'
                (apply_selectors_to_elements_as_inline_css sel s no_pseudo_selectors inline_style))"

text \<open>
  \<open>main\<close>, from the tree read from \<open>args.input_html\<close> to the level of the parser's logger
  and the tree written to \<open>args.output_html\<close>. The parser reads the level of its logger,
  so it is a function of it. An exception that nothing catches ends the run (\<open>Inl\<close>).
\<close>

definition main ::
  "(int \<Rightarrow> parse_string) \<Rightarrow> select \<Rightarrow> InlineCSSArgs \<Rightarrow> soup \<Rightarrow> exn + int \<times> soup" where
  "main parseString sel args s =
     (let level = log_level args;
          tags = style_tags s
      in case divide_declarations_from_style_tags tags of
           Inl e \<Rightarrow> Inl e
         | Inr declarations \<Rightarrow>
             (case process_css_declarations (parseString level) declarations of
                Inl e \<Rightarrow> Inl e
              | Inr processed_declarations \<Rightarrow>
                  (let inlined_css_declarations =
                         inline_css_declarations (successful_declaration processed_declarations);
                       (pseudo_style_declarations, s1) =
                         resolve_loop sel inlined_css_declarations [] s;
                       s2 = remove_style_tags_from_soup s1;
                       s3 = insert_unprocessed_declarations s2
                              (failed_declaration processed_declarations)
                   in Inr (level, s3))))"


section \<open>Notions of the specification\<close>

text \<open>
  The declaration formatting as the specification words it: split into lines, strip each
  line, remove every semicolon of the line, append one semicolon, join with one space.
\<close>

definition format_css_content_as_specified :: "string \<Rightarrow> string" where
  "format_css_content_as_specified css_text =
     str_join '' ''
       (map (\<lambda>line. str_remove (CHR '';'') (str_strip line) @ '';'')
            (str_splitlines css_text))"

text \<open>A text that \<open>str.strip()\<close> empties: nothing but whitespace.\<close>

definition is_blank :: "string \<Rightarrow> bool" where
  "is_blank s = list_all isspace s"

text \<open>
  The fragments of one style block in the words of the Block Splitter's contract: split
  on the closing brace, re-append a brace to each piece, discard every piece whose stripped
  text is exactly the brace.
\<close>

definition block_fragments :: "string \<Rightarrow> string list" where
  "block_fragments text =
     filter (\<lambda>x. str_strip x \<noteq> ''}'')
       (map add_closing_tag (str_split (CHR ''}'') text))"

text \<open>
  The number of top-level rules of a block text that a closing brace ends: the closing
  braces that bring the nesting depth from one back to zero.
\<close>

fun count_top_level_rules :: "nat \<Rightarrow> string \<Rightarrow> nat" where
  "count_top_level_rules depth [] = 0"
| "count_top_level_rules depth (c # cs) =
     (if c = CHR ''{'' then count_top_level_rules (Suc depth) cs
      else if c = CHR ''}''
           then (if depth = 1 then 1 else 0) + count_top_level_rules (depth - 1) cs
           else count_top_level_rules depth cs)"

definition top_level_rules :: "string \<Rightarrow> nat" where
  "top_level_rules text = count_top_level_rules 0 text"

text \<open>
  What the Rule Parser records, in encounter order: for a rule whose selector text and
  declaration text can both be read, the selector text and the formatted declaration;
  for a fragment, the pairs of the rules of its parse (none when the parse raises); for a
  sequence of fragments, the pairs of all of them.
\<close>

definition rule_pairs :: "css_rule \<Rightarrow> (string \<times> string) list" where
  "rule_pairs css_dict =
     (case selectorText css_dict of
        None \<Rightarrow> []
      | Some css_selector \<Rightarrow>
          (case style_cssText css_dict of
             None \<Rightarrow> []
           | Some css_text \<Rightarrow> [(css_selector, format_css_content_for_inline css_text)]))"

definition fragment_pairs :: "parse_string \<Rightarrow> string \<Rightarrow> (string \<times> string) list" where
  "fragment_pairs parser declaration =
     (case parser declaration of
        Inl e \<Rightarrow> []
      | Inr parsed_css \<Rightarrow> concat (map rule_pairs parsed_css))"

definition recorded_pairs :: "parse_string \<Rightarrow> string list \<Rightarrow> (string \<times> string) list" where
  "recorded_pairs parser declarations = concat (map (fragment_pairs parser) declarations)"

text \<open>The parse of a fragment raises an exception that is not the syntax-error signal.\<close>

definition raises_other :: "parse_string \<Rightarrow> string \<Rightarrow> bool" where
  "raises_other parser declaration =
     (case parser declaration of Inl e \<Rightarrow> e \<noteq> SyntaxErr | Inr parsed_css \<Rightarrow> False)"

text \<open>One pair put into the Declaration Record: \<open>setdefault\<close>, then \<open>append\<close>.\<close>

definition add_pair :: "string \<times> string \<Rightarrow> CssDict \<Rightarrow> CssDict" where
  "add_pair p d = dict_append (fst p) (snd p) (dict_setdefault (fst p) [] d)"

text \<open>The Selector Group of a selector-text key: split on the comma, each piece trimmed.\<close>

definition selector_group :: "string \<Rightarrow> string list" where
  "selector_group selector = map str_strip (str_split (CHR '','') selector)"

text \<open>
  A stand-in for the external CSS parser on the fragments of the specification's examples:
  each of the three well-formed fragments parses to one rule, every other text raises the
  syntax-error signal.
\<close>

definition example_parser :: parse_string where
  "example_parser text =
     (if text = ''a{color:red}''
      then Inr [\<lparr>selectorText = Some ''a'', style_cssText = Some ''color:red''\<rparr>]
      else if text = ''a{font-size:12px}''
      then Inr [\<lparr>selectorText = Some ''a'', style_cssText = Some ''font-size:12px''\<rparr>]
      else if text = ''a, b:hover{color:red}''
      then Inr [\<lparr>selectorText = Some ''a, b:hover'', style_cssText = Some ''color:red''\<rparr>]
      else Inl SyntaxErr)"

section \<open>Declaration formatting\<close>

lemma splitlines_from_no_boundary:
  "\<forall>c\<in>set cur. \<not> is_line_boundary c \<Longrightarrow> l \<in> set (splitlines_from cur s) \<Longrightarrow>
   c \<in> set l \<Longrightarrow> \<not> is_line_boundary c"
proof (induction cur s arbitrary: l rule: splitlines_from.induct)
  case (1 cur)
  then show ?case by (auto split: if_splits)
next
  case (2 cur c)
  then show ?case by (auto split: if_splits)
next
  case (3 cur c d cs)
  then show ?case by (auto split: if_splits)
qed

lemma str_splitlines_no_boundary:
  "l \<in> set (str_splitlines s) \<Longrightarrow> c \<in> set l \<Longrightarrow> \<not> is_line_boundary c"
  using splitlines_from_no_boundary [of "[]" l s c] by (simp add: str_splitlines_def)

lemma set_str_join: "set (str_join sep xs) \<subseteq> set sep \<union> \<Union> (set ` set xs)"
  by (induction sep xs rule: str_join.induct) auto

lemma formatted_item_semicolon:
  "last (str_remove (CHR '';'') item @ '';'') = CHR '';'' \<and>
   count_list (str_remove (CHR '';'') item @ '';'') (CHR '';'') = 1"
  by (induction item) (auto simp: str_remove_def)

lemma formatted_css_items_no_boundary:
  assumes "d \<in> set (formatted_css_items css_text)" and "c \<in> set d"
  shows "\<not> is_line_boundary c"
proof -
  from assms(1) obtain item where item: "item \<in> set (str_splitlines (str_strip css_text))"
    and d: "d = str_remove (CHR '';'') item @ '';''"
    by (auto simp: formatted_css_items_def)
  from assms(2) d have "c \<in> set item \<or> c = CHR '';''"
    by (auto simp: str_remove_def)
  then show ?thesis
  proof
    assume "c \<in> set item"
    with item show ?thesis by (rule str_splitlines_no_boundary)
  next
    assume "c = CHR '';''"
    then show ?thesis by (simp add: is_line_boundary_def)
  qed
qed

lemma format_css_content_no_boundary:
  assumes "c \<in> set (format_css_content_for_inline css_text)"
  shows "\<not> is_line_boundary c"
proof -
  from assms set_str_join [of "'' ''" "formatted_css_items css_text"]
  have "c = CHR '' '' \<or> (\<exists>d\<in>set (formatted_css_items css_text). c \<in> set d)"
    by (auto simp: format_css_content_for_inline_def)
  then show ?thesis
  proof
    assume "c = CHR '' ''"
    then show ?thesis by (simp add: is_line_boundary_def)
  next
    assume "\<exists>d\<in>set (formatted_css_items css_text). c \<in> set d"
    then show ?thesis using formatted_css_items_no_boundary by blast
  qed
qed

text \<open>
  C2, as the code has it. The text is stripped once as a whole and then split into
  lines; the lines themselves are not stripped. Every semicolon of a line is removed and
  one semicolon is appended, and the lines are joined with one space. Hence every
  formatted declaration ends in a semicolon and holds exactly one, and the result holds
  no line boundary, in particular no newline.
\<close>

theorem format_css_content_for_inline_lines:
  "format_css_content_for_inline css_text =
     str_join '' ''
       (map (\<lambda>item. str_remove (CHR '';'') item @ '';'')
            (str_splitlines (str_strip css_text)))
   \<and> (\<forall>d\<in>set (formatted_css_items css_text).
         last d = CHR '';'' \<and> count_list d (CHR '';'') = 1)
   \<and> (\<forall>c\<in>set (format_css_content_for_inline css_text). \<not> is_line_boundary c)
   \<and> CHR 0x0A \<notin> set (format_css_content_for_inline css_text)"
proof -
  have a: "format_css_content_for_inline css_text =
     str_join '' ''
       (map (\<lambda>item. str_remove (CHR '';'') item @ '';'')
            (str_splitlines (str_strip css_text)))"
    by (simp add: format_css_content_for_inline_def formatted_css_items_def)
  have b: "\<forall>d\<in>set (formatted_css_items css_text).
         last d = CHR '';'' \<and> count_list d (CHR '';'') = 1"
    using formatted_item_semicolon by (auto simp: formatted_css_items_def)
  have c: "\<forall>c\<in>set (format_css_content_for_inline css_text). \<not> is_line_boundary c"
    using format_css_content_no_boundary by blast
  have "is_line_boundary (CHR 0x0A)"
    by (simp add: is_line_boundary_def)
  with c have d: "CHR 0x0A \<notin> set (format_css_content_for_inline css_text)"
    by blast
  from a b c d show ?thesis by blast
qed

theorem format_css_content_for_inline_lines_witness:
  "''color: red;'' \<in> set (formatted_css_items ''color: red;\<newline>font-size: 12px'')
   \<and> last ''color: red;'' = CHR '';'' \<and> count_list ''color: red;'' (CHR '';'') = 1
   \<and> CHR ''c'' \<in> set (format_css_content_for_inline ''color: red;\<newline>font-size: 12px'')
   \<and> \<not> is_line_boundary (CHR ''c'')
   \<and> format_css_content_for_inline ''color: red;\<newline>font-size: 12px'' =
       ''color: red; font-size: 12px;''"
proof -
  have items: "formatted_css_items ''color: red;\<newline>font-size: 12px'' =
                 [''color: red;'', ''font-size: 12px;'']"
    by (simp add: formatted_css_items_def str_splitlines_def str_strip_def isspace_def
        is_line_boundary_def str_remove_def)
  have whole: "format_css_content_for_inline ''color: red;\<newline>font-size: 12px'' =
                 ''color: red; font-size: 12px;''"
    by (simp add: format_css_content_for_inline_def items)
  have m1: "''color: red;'' \<in> set (formatted_css_items ''color: red;\<newline>font-size: 12px'')"
    by (simp add: items)
  have m2: "CHR ''c'' \<in> set (format_css_content_for_inline ''color: red;\<newline>font-size: 12px'')"
    by (simp add: whole)
  from format_css_content_for_inline_lines [of "''color: red;\<newline>font-size: 12px''"] m1 m2
  have "last ''color: red;'' = CHR '';'' \<and> count_list ''color: red;'' (CHR '';'') = 1
        \<and> \<not> is_line_boundary (CHR ''c'')"
    by blast
  with m1 m2 whole show ?thesis by blast
qed

text \<open>
  C2 as stated fails: a line that starts with blanks keeps them, where the claim strips
  each line.
\<close>

theorem format_css_content_for_inline_counterexample:
  "format_css_content_for_inline ''color: red;\<newline>  font-size: 12px'' =
     ''color: red;   font-size: 12px;''
   \<and> format_css_content_as_specified ''color: red;\<newline>  font-size: 12px'' =
     ''color: red; font-size: 12px;''"
  by (simp add: format_css_content_for_inline_def formatted_css_items_def
      format_css_content_as_specified_def str_splitlines_def str_strip_def isspace_def
      is_line_boundary_def str_remove_def)


section \<open>Block Splitter\<close>

lemma str_split_not_Nil: "str_split sep s \<noteq> []"
  by (induction s) (auto split: list.splits)

lemma str_split_no_sep: "sep \<notin> set w \<Longrightarrow> str_split sep w = [w]"
  by (induction w) auto

lemma str_split_at_sep: "sep \<notin> set r \<Longrightarrow> str_split sep (r @ sep # rest) = r # str_split sep rest"
  by (induction r) auto

lemma brace_not_space: "\<not> isspace (CHR ''}'')"
  by (simp add: isspace_def)

lemma dropWhile_snoc_keep: "\<not> P c \<Longrightarrow> dropWhile P (r @ [c]) = dropWhile P r @ [c]"
  by (induction r) auto

lemma add_closing_tag_lstrip: "add_closing_tag r = dropWhile isspace r @ ''}''"
proof -
  have "dropWhile isspace (r @ ''}'') = dropWhile isspace r @ ''}''"
    using dropWhile_snoc_keep [of isspace "CHR ''}''" r] brace_not_space by simp
  then show ?thesis
    by (simp add: add_closing_tag_def str_strip_def brace_not_space)
qed

lemma str_strip_add_closing_tag: "str_strip (add_closing_tag r) = add_closing_tag r"
proof -
  let ?l = "dropWhile isspace r"
  have "dropWhile isspace (?l @ ''}'') = ?l @ ''}''"
  proof (cases ?l)
    case Nil
    show ?thesis unfolding Nil by (simp add: brace_not_space)
  next
    case (Cons a as)
    then have "\<not> isspace a" using hd_dropWhile [of isspace r] by (metis list.sel(1) list.distinct(1))
    with Cons show ?thesis by simp
  qed
  then show ?thesis
    by (simp add: add_closing_tag_lstrip str_strip_def brace_not_space)
qed

lemma dropWhile_blank: "(dropWhile isspace r = []) = is_blank r"
  by (induction r) (auto simp: is_blank_def)

lemma keep_fragment: "(str_strip (add_closing_tag r) \<noteq> ''}'') = (\<not> is_blank r)"
proof -
  have "(add_closing_tag r \<noteq> ''}'') = (\<not> is_blank r)"
    by (simp add: add_closing_tag_lstrip is_blank_def list_all_iff)
  then show ?thesis by (simp only: str_strip_add_closing_tag)
qed

lemma individual_declarations_Some:
  "individual_declarations (map Some texts) =
     Inr (map (\<lambda>t. map add_closing_tag (str_split (CHR ''}'') t)) texts)"
  by (induction texts) auto

lemma individual_declarations_None:
  "None \<in> set tags \<Longrightarrow> individual_declarations tags = Inl AttributeError"
  by (induction tags rule: individual_declarations.induct) auto

lemma is_blank_no_brace: "is_blank w \<Longrightarrow> CHR ''}'' \<notin> set w"
  by (auto simp: is_blank_def list_all_iff brace_not_space)

lemma str_split_rules:
  "\<forall>r\<in>set rules. CHR ''}'' \<notin> set r \<Longrightarrow> CHR ''}'' \<notin> set trailer \<Longrightarrow>
   str_split (CHR ''}'') (concat (map (\<lambda>r. r @ ''}'') rules) @ trailer) = rules @ [trailer]"
  by (induction rules) (auto simp: str_split_no_sep str_split_at_sep)


lemma divide_blocks:
  "divide_declarations_from_style_tags (map Some texts) = Inr (concat (map block_fragments texts))"
proof -
  have "(\<lambda>t. filter (\<lambda>x. str_strip x \<noteq> ''}'') (map add_closing_tag (str_split (CHR ''}'') t))) =
        block_fragments"
    by (rule ext) (simp add: block_fragments_def)
  then show ?thesis
    by (simp add: divide_declarations_from_style_tags_def individual_declarations_Some
        filter_concat comp_def)
qed

lemma block_fragments_pieces:
  "block_fragments text =
     map add_closing_tag (filter (\<lambda>r. \<not> is_blank r) (str_split (CHR ''}'') text))"
  by (simp add: block_fragments_def filter_map comp_def keep_fragment)

lemma block_fragments_rules:
  assumes "\<forall>r\<in>set rules. CHR ''}'' \<notin> set r \<and> \<not> is_blank r" and "is_blank trailer"
  shows "block_fragments (concat (map (\<lambda>r. r @ ''}'') rules) @ trailer) =
           map (\<lambda>r. dropWhile isspace r @ ''}'') rules"
proof -
  have "str_split (CHR ''}'') (concat (map (\<lambda>r. r @ ''}'') rules) @ trailer) = rules @ [trailer]"
    using assms by (intro str_split_rules) (auto dest: is_blank_no_brace)
  moreover have "filter (\<lambda>r. \<not> is_blank r) rules = rules"
    using assms by (simp add: filter_id_conv)
  ultimately show ?thesis
    using assms(2) by (simp add: block_fragments_pieces add_closing_tag_lstrip)
qed

lemma block_fragments_blank: "is_blank text \<Longrightarrow> block_fragments text = []"
  using is_blank_no_brace [of "text"]
  by (simp add: block_fragments_pieces str_split_no_sep)

lemma block_fragments_no_brace:
  "CHR ''}'' \<notin> set text \<Longrightarrow> \<not> is_blank text \<Longrightarrow>
   block_fragments text = [dropWhile isspace text @ ''}'']"
  by (simp add: block_fragments_pieces str_split_no_sep add_closing_tag_lstrip)

lemma divide_one_block:
  "divide_declarations_from_style_tags [Some text] = Inr (block_fragments text)"
  using divide_blocks [of "[text]"] by simp

lemma individual_declarations_total:
  "None \<notin> set tags \<Longrightarrow> \<exists>individual. individual_declarations tags = Inr individual"
  by (induction tags rule: individual_declarations.induct) auto

text \<open>
  C4, as the code has it. The fragments of a sequence of style blocks are the fragments of
  each block, block after block. A block text made of rules none of which is blank or
  holds a closing brace of its own, each followed by its closing brace, and then only
  whitespace, yields one fragment for each rule, in order: the rule without its leading
  whitespace, ending in the brace. A block text without a closing brace that is not blank
  yields one fragment, the text without its leading whitespace and with a brace appended.
  A blank block text yields no fragment.
\<close>

theorem divide_declarations_from_style_tags_fragments:
  "divide_declarations_from_style_tags (map Some texts) = Inr (concat (map block_fragments texts))
   \<and> ((\<forall>r\<in>set rules. CHR ''}'' \<notin> set r \<and> \<not> is_blank r) \<and> is_blank trailer \<longrightarrow>
        (\<exists>fragments.
           divide_declarations_from_style_tags
             [Some (concat (map (\<lambda>r. r @ ''}'') rules) @ trailer)] = Inr fragments
         \<and> fragments = map (\<lambda>r. dropWhile isspace r @ ''}'') rules
         \<and> length fragments = length rules
         \<and> (\<forall>f\<in>set fragments. f \<noteq> [] \<and> last f = CHR ''}'')))
   \<and> (CHR ''}'' \<notin> set text \<and> \<not> is_blank text \<longrightarrow>
        divide_declarations_from_style_tags [Some text] = Inr [dropWhile isspace text @ ''}''])
   \<and> (is_blank blank \<longrightarrow> divide_declarations_from_style_tags [Some blank] = Inr [])"
  by (auto simp: divide_blocks divide_one_block block_fragments_rules block_fragments_no_brace
      block_fragments_blank)

theorem divide_declarations_from_style_tags_fragments_witness:
  "CHR ''}'' \<notin> set ''a{x'' \<and> \<not> is_blank ''a{x''
   \<and> CHR ''}'' \<notin> set ''\<newline>b{y'' \<and> \<not> is_blank ''\<newline>b{y'' \<and> is_blank ''\<newline>''
   \<and> divide_declarations_from_style_tags [Some ''a{x}\<newline>b{y}\<newline>''] = Inr [''a{x}'', ''b{y}'']
   \<and> CHR ''}'' \<notin> set '' c'' \<and> \<not> is_blank '' c''
   \<and> divide_declarations_from_style_tags [Some '' c''] = Inr [''c}'']
   \<and> is_blank '' '' \<and> divide_declarations_from_style_tags [Some '' ''] = Inr []"
proof -
  have h1: "\<forall>r\<in>set [''a{x'', ''\<newline>b{y'']. CHR ''}'' \<notin> set r \<and> \<not> is_blank r"
    by (simp add: is_blank_def isspace_def)
  have h2: "is_blank ''\<newline>''" by (simp add: is_blank_def isspace_def)
  have h3: "CHR ''}'' \<notin> set '' c'' \<and> \<not> is_blank '' c''" by (simp add: is_blank_def isspace_def)
  have h4: "is_blank '' ''" by (simp add: is_blank_def isspace_def)
  from divide_declarations_from_style_tags_fragments
         [of "[]" "[''a{x'', ''\<newline>b{y'']" "''\<newline>''" "'' c''" "'' ''"] h1 h2 h3 h4
  have "divide_declarations_from_style_tags
          [Some (concat (map (\<lambda>r. r @ ''}'') [''a{x'', ''\<newline>b{y'']) @ ''\<newline>'')] =
          Inr (map (\<lambda>r. dropWhile isspace r @ ''}'') [''a{x'', ''\<newline>b{y''])
        \<and> divide_declarations_from_style_tags [Some '' c''] = Inr [dropWhile isspace '' c'' @ ''}'']
        \<and> divide_declarations_from_style_tags [Some '' ''] = Inr []"
    by blast
  then have "divide_declarations_from_style_tags [Some ''a{x}\<newline>b{y}\<newline>''] = Inr [''a{x}'', ''b{y}'']
        \<and> divide_declarations_from_style_tags [Some '' c''] = Inr [''c}'']
        \<and> divide_declarations_from_style_tags [Some '' ''] = Inr []"
    by (simp add: isspace_def)
  moreover have "CHR ''}'' \<notin> set ''a{x'' \<and> \<not> is_blank ''a{x''
      \<and> CHR ''}'' \<notin> set ''\<newline>b{y'' \<and> \<not> is_blank ''\<newline>b{y''"
    using h1 by simp
  ultimately show ?thesis using h2 h3 h4 by blast
qed

text \<open>
  C4 as stated fails twice. A block text of one blank has no closing brace and yields no
  fragment, where the claim promises one. A block text of one top-level rule that nests
  two rules yields two fragments, where the claim promises one for each top-level rule.
\<close>

theorem divide_declarations_from_style_tags_counterexample:
  "CHR ''}'' \<notin> set '' ''
   \<and> divide_declarations_from_style_tags [Some '' ''] = Inr []
   \<and> top_level_rules ''@media print{a{x}b{y}}'' = 1
   \<and> divide_declarations_from_style_tags [Some ''@media print{a{x}b{y}}''] =
       Inr [''@media print{a{x}'', ''b{y}'']"
  by (simp add: divide_declarations_from_style_tags_def add_closing_tag_def str_strip_def
      isspace_def top_level_rules_def)

text \<open>
  C9. The Block Splitter raises the attribute-error signal as soon as one style element
  has no string, and the run of \<open>main\<close> ends with that signal; when every style element
  has a string the splitter returns its fragments.
\<close>

theorem divide_declarations_from_style_tags_partial:
  "(None \<in> set tags \<longrightarrow> divide_declarations_from_style_tags tags = Inl AttributeError)
   \<and> (None \<notin> set tags' \<longrightarrow>
        (\<exists>fragments. divide_declarations_from_style_tags tags' = Inr fragments))
   \<and> (None \<in> set (style_tags s) \<longrightarrow> main parseString sel args s = Inl AttributeError)"
proof -
  have a: "None \<in> set tags \<longrightarrow> divide_declarations_from_style_tags tags = Inl AttributeError"
    by (simp add: divide_declarations_from_style_tags_def individual_declarations_None)
  have b: "None \<notin> set tags' \<longrightarrow>
        (\<exists>fragments. divide_declarations_from_style_tags tags' = Inr fragments)"
    using individual_declarations_total [of tags']
    by (auto simp: divide_declarations_from_style_tags_def)
  have c: "None \<in> set (style_tags s) \<longrightarrow> main parseString sel args s = Inl AttributeError"
    by (simp add: main_def divide_declarations_from_style_tags_def
        individual_declarations_None)
  from a b c show ?thesis by blast
qed

theorem divide_declarations_from_style_tags_partial_witness:
  "None \<in> set [Some ''a{x}'', None]
   \<and> divide_declarations_from_style_tags [Some ''a{x}'', None] = Inl AttributeError
   \<and> None \<notin> set [Some ''a{x}'']
   \<and> divide_declarations_from_style_tags [Some ''a{x}''] = Inr [''a{x}'']
   \<and> None \<in> set (style_tags \<lparr>style_tags = [None], style_attr = (\<lambda>i. None),
                               has_head = True, head_appended = []\<rparr>)
   \<and> main (\<lambda>level text. Inr []) (\<lambda>tree selector. [])
        \<lparr>input_html = ''in'', output_html = ''out'', silent = False\<rparr>
        \<lparr>style_tags = [None], style_attr = (\<lambda>i. None), has_head = True, head_appended = []\<rparr>
      = Inl AttributeError"
proof -
  have v: "divide_declarations_from_style_tags [Some ''a{x}''] = Inr [''a{x}'']"
    by (simp add: divide_declarations_from_style_tags_def add_closing_tag_def str_strip_def
        isspace_def)
  from divide_declarations_from_style_tags_partial
         [of "[Some ''a{x}'', None]" "[Some ''a{x}'']"
             "\<lparr>style_tags = [None], style_attr = (\<lambda>i. None), has_head = True, head_appended = []\<rparr>"
             "\<lambda>level text. Inr []" "\<lambda>tree selector. []"
             "\<lparr>input_html = ''in'', output_html = ''out'', silent = False\<rparr>"]
  show ?thesis by (simp add: v)
qed


section \<open>Rule Parser and Declaration Grouper\<close>

lemma record_rule_pairs:
  "record_rule r d = foldl (\<lambda>d p. add_pair p d) d (rule_pairs r)"
  by (simp add: record_rule_def rule_pairs_def add_pair_def split: option.splits)

lemma record_rules_pairs:
  "record_rules rules d = foldl (\<lambda>d p. add_pair p d) d (concat (map rule_pairs rules))"
  by (induction rules arbitrary: d) (simp_all add: record_rule_pairs)

lemma process_loop_closed:
  "\<forall>x\<in>set ds. \<not> raises_other parser x \<Longrightarrow>
   process_loop parser ds failed d =
     Inr \<lparr>successful_declaration =
            foldl (\<lambda>d p. add_pair p d) d (recorded_pairs parser ds),
          failed_declaration = failed @ filter (\<lambda>x. parser x = Inl SyntaxErr) ds\<rparr>"
proof (induction ds arbitrary: failed d)
  case Nil
  then show ?case by (simp add: recorded_pairs_def)
next
  case (Cons x ds)
  then show ?case
    by (cases "parser x")
       (auto simp: recorded_pairs_def fragment_pairs_def raises_other_def record_rules_pairs)
qed

lemma process_loop_Inr_no_other:
  "process_loop parser ds failed d = Inr r \<Longrightarrow> \<forall>x\<in>set ds. \<not> raises_other parser x"
proof (induction ds arbitrary: failed d)
  case Nil
  then show ?case by simp
next
  case (Cons x ds)
  then show ?case
    by (cases "parser x") (auto simp: raises_other_def split: if_splits)
qed


lemma map_of_absent: "k \<notin> fst ` set d \<Longrightarrow> map_of d k = None"
  by (simp add: map_of_eq_None_iff)

lemma filter_key_absent: "k \<notin> fst ` set pairs \<Longrightarrow> filter (\<lambda>q. fst q = k) pairs = []"
  by (auto simp: filter_empty_conv)

lemma map_fst_dict_setdefault:
  "map fst (dict_setdefault k v d) = (if k \<in> set (map fst d) then map fst d else map fst d @ [k])"
  by (simp add: dict_setdefault_def)

lemma map_of_dict_setdefault:
  "map_of (dict_setdefault k v d) k' =
     (if k' = k \<and> k \<notin> set (map fst d) then Some v else map_of d k')"
  by (auto simp: dict_setdefault_def map_add_def map_of_absent split: option.splits)

lemma map_fst_dict_append: "map fst (dict_append k x d) = map fst d"
  by (induction d) auto

lemma map_of_dict_append:
  "map_of (dict_append k x d) k' =
     (if k' = k then map_option (\<lambda>xs. xs @ [x]) (map_of d k) else map_of d k')"
  by (induction d) auto

lemma map_fst_add_pair:
  "map fst (add_pair p d) = (if fst p \<in> set (map fst d) then map fst d else map fst d @ [fst p])"
  by (simp add: add_pair_def map_fst_dict_append map_fst_dict_setdefault)

lemma map_of_add_pair:
  "map_of (add_pair p d) k =
     (if k = fst p then Some ((case map_of d k of None \<Rightarrow> [] | Some xs \<Rightarrow> xs) @ [snd p])
      else map_of d k)"
  by (auto simp: add_pair_def map_of_dict_append map_of_dict_setdefault map_of_absent
      split: option.splits dest: weak_map_of_SomeI)

lemma first_seen_snoc:
  "rev (remdups (rev (xs @ [x]))) =
     (if x \<in> set xs then rev (remdups (rev xs)) else rev (remdups (rev xs)) @ [x])"
  by simp

lemma grouping_invariant:
  "map fst (foldl (\<lambda>d p. add_pair p d) [] pairs) = rev (remdups (rev (map fst pairs)))
   \<and> (\<forall>k. map_of (foldl (\<lambda>d p. add_pair p d) [] pairs) k =
          (if k \<in> fst ` set pairs then Some (map snd (filter (\<lambda>p. fst p = k) pairs)) else None))"
proof (induction pairs rule: rev_induct)
  case Nil
  then show ?case by simp
next
  case (snoc p pairs)
  let ?d = "foldl (\<lambda>d p. add_pair p d) [] pairs"
  from snoc have keys: "map fst ?d = rev (remdups (rev (map fst pairs)))" by blast
  from snoc have vals: "\<And>k. map_of ?d k =
          (if k \<in> fst ` set pairs then Some (map snd (filter (\<lambda>p. fst p = k) pairs)) else None)"
    by blast
  have "set (map fst ?d) = fst ` set pairs" by (simp add: keys)
  then have a: "map fst (add_pair p ?d) = rev (remdups (rev (map fst (pairs @ [p]))))"
    by (simp add: map_fst_add_pair keys)
  have b: "\<And>k. map_of (add_pair p ?d) k =
          (if k \<in> fst ` set (pairs @ [p])
           then Some (map snd (filter (\<lambda>q. fst q = k) (pairs @ [p]))) else None)"
    by (auto simp: map_of_add_pair vals filter_key_absent)
  from a b show ?case by simp
qed

lemma process_css_declarations_closed:
  assumes "\<forall>x\<in>set ds. \<not> raises_other parser x"
  shows "process_css_declarations parser ds =
     Inr \<lparr>successful_declaration = foldl (\<lambda>d p. add_pair p d) [] (recorded_pairs parser ds),
          failed_declaration = filter (\<lambda>x. parser x = Inl SyntaxErr) ds\<rparr>"
  using process_loop_closed [OF assms, of "[]" "[]"]
  by (simp add: process_css_declarations_def)

lemmas eval_defs = process_css_declarations_def record_rule_def dict_setdefault_def
  format_css_content_for_inline_def formatted_css_items_def str_splitlines_def str_strip_def
  isspace_def is_line_boundary_def str_remove_def



text \<open>
  C6. The keys of the Declaration Record are the selector texts of the recorded rules in
  the order of their first occurrence, each once, and the list of a key holds the
  formatted declarations of the rules with that selector text in encounter order.
\<close>

theorem declaration_record_grouping:
  assumes "process_css_declarations parser declarations = Inr processed"
  shows "map fst (successful_declaration processed) =
           rev (remdups (rev (map fst (recorded_pairs parser declarations))))
       \<and> distinct (map fst (successful_declaration processed))
       \<and> (\<forall>k\<in>set (map fst (recorded_pairs parser declarations)).
            map_of (successful_declaration processed) k =
              Some (map snd (filter (\<lambda>p. fst p = k) (recorded_pairs parser declarations))))
       \<and> (\<forall>k. k \<notin> set (map fst (recorded_pairs parser declarations)) \<longrightarrow>
            map_of (successful_declaration processed) k = None)"
proof -
  from assms have "\<forall>d\<in>set declarations. \<not> raises_other parser d"
    unfolding process_css_declarations_def by (rule process_loop_Inr_no_other)
  from process_css_declarations_closed [OF this] assms
  have rec: "successful_declaration processed =
               foldl (\<lambda>d p. add_pair p d) [] (recorded_pairs parser declarations)"
    by auto
  from grouping_invariant [of "recorded_pairs parser declarations"]
  show ?thesis unfolding rec by simp
qed

theorem declaration_record_grouping_witness:
  "process_css_declarations example_parser [''a{color:red}'', ''a{font-size:12px}''] =
     Inr \<lparr>successful_declaration = [(''a'', [''color:red;'', ''font-size:12px;''])],
          failed_declaration = []\<rparr>
   \<and> recorded_pairs example_parser [''a{color:red}'', ''a{font-size:12px}''] =
       [(''a'', ''color:red;''), (''a'', ''font-size:12px;'')]
   \<and> ''a'' \<in> set (map fst (recorded_pairs example_parser
                               [''a{color:red}'', ''a{font-size:12px}'']))
   \<and> ''b'' \<notin> set (map fst (recorded_pairs example_parser
                               [''a{color:red}'', ''a{font-size:12px}'']))
   \<and> map fst [(''a'', [''color:red;'', ''font-size:12px;''])] = [''a'']
   \<and> map_of [(''a'', [''color:red;'', ''font-size:12px;''])] ''a'' =
       Some [''color:red;'', ''font-size:12px;'']
   \<and> map_of [(''a'', [''color:red;'', ''font-size:12px;''])] ''b'' = None"
proof -
  have run: "process_css_declarations example_parser [''a{color:red}'', ''a{font-size:12px}''] =
     Inr \<lparr>successful_declaration = [(''a'', [''color:red;'', ''font-size:12px;''])],
          failed_declaration = []\<rparr>"
    by (simp add: example_parser_def eval_defs)
  have pairs: "recorded_pairs example_parser [''a{color:red}'', ''a{font-size:12px}''] =
       [(''a'', ''color:red;''), (''a'', ''font-size:12px;'')]"
    by (simp add: recorded_pairs_def fragment_pairs_def rule_pairs_def example_parser_def
        eval_defs)
  from declaration_record_grouping [OF run]
  show ?thesis unfolding pairs using run by simp
qed


section \<open>Selector Resolver\<close>

lemma map_of_dict_set: "map_of (dict_set k v d) = (map_of d)(k \<mapsto> v)"
  by (induction d) (auto simp: fun_eq_iff)
















lemmas eval_resolver = inline_css_declarations_def selector_group_def str_strip_def isspace_def
  str_contains_def dict_setdefault_def style_item_def new_style_attr_def is_falsy_def
  str_rstrip_def




section \<open>Inline Applier\<close>

lemma str_rstrip_decomp:
  "s = str_rstrip c s @ replicate (length (takeWhile (\<lambda>x. x = c) (rev s))) c"
proof -
  let ?t = "takeWhile (\<lambda>x. x = c) (rev s)"
  have "\<forall>y\<in>set ?t. y = c" by (auto dest: set_takeWhileD)
  then have t: "replicate (length ?t) c = ?t" by (rule replicate_length_same)
  have "rev (dropWhile (\<lambda>x. x = c) (rev s)) @ rev ?t =
        rev (?t @ dropWhile (\<lambda>x. x = c) (rev s))"
    by (simp only: rev_append)
  also have "\<dots> = s"
    by (simp only: takeWhile_dropWhile_id rev_rev_ident)
  finally have "str_rstrip c s @ rev ?t = s" by (simp only: str_rstrip_def)
  moreover have "rev ?t = replicate (length ?t) c"
    using t by (metis rev_replicate)
  ultimately show ?thesis by simp
qed

lemma str_rstrip_no_trailing: "str_rstrip c s \<noteq> y @ [c]"
proof
  assume a: "str_rstrip c s = y @ [c]"
  let ?d = "dropWhile (\<lambda>x. x = c) (rev s)"
  from a have "?d = c # rev y" by (simp add: str_rstrip_def rev_swap)
  then have "?d \<noteq> []" and "hd ?d = c" by simp_all
  with hd_dropWhile [of "\<lambda>x. x = c" "rev s"] show False by simp
qed

lemma new_style_attr_absent: "new_style_attr None c = str_rstrip (CHR '';'') c"
  by (simp add: new_style_attr_def is_falsy_def)

lemma new_style_attr_empty:
  "previous = Some (AttrStr []) \<or> previous = Some (AttrList []) \<Longrightarrow>
   new_style_attr previous c = str_rstrip (CHR '';'') c"
  by (auto simp: new_style_attr_def is_falsy_def)

lemma new_style_attr_string:
  "text \<noteq> [] \<Longrightarrow>
   new_style_attr (Some (AttrStr text)) c = str_rstrip (CHR '';'') (text @ ''; '' @ c)"
  by (simp add: new_style_attr_def is_falsy_def)

lemma new_style_attr_tokens:
  "new_style_attr (Some (AttrList tokens)) c =
     str_rstrip (CHR '';'') (str_join ''; '' (tokens @ [c]))"
  by (simp add: new_style_attr_def is_falsy_def)

lemma style_attr_style_item:
  "style_attr (style_item c s item) i =
     (if i = item then Some (AttrStr (new_style_attr (style_attr s item) c)) else style_attr s i)"
  by (simp add: style_item_def)

lemma style_items_distinct:
  "distinct items \<Longrightarrow>
   style_attr (style_items c s items) i =
     (if i \<in> set items then Some (AttrStr (new_style_attr (style_attr s i) c))
      else style_attr s i)"
proof (induction items arbitrary: s)
  case Nil
  show ?case by simp
next
  case (Cons item items)
  then have d: "distinct items" and n: "item \<notin> set items" by simp_all
  show ?case
    using Cons.IH [OF d, of "style_item c s item"] n
    by (auto simp: style_attr_style_item)
qed

text \<open>
  C5, as the code has it. The new style value of a matched element is: for an absent
  attribute, the candidate without its trailing semicolons; for a string that is not
  empty, the string and the candidate joined with a semicolon and a blank, without the
  trailing semicolons; for a token list, the tokens and the candidate joined the same way.
  A loop over distinct matched elements gives each of them that value. Applying
  \<open>color:red;\<close> to \<open>font-weight:bold\<close> yields \<open>font-weight:bold; color:red\<close>.
\<close>

theorem inline_applier_new_style:
  "new_style_attr None inline_style = str_rstrip (CHR '';'') inline_style
   \<and> (text \<noteq> [] \<longrightarrow>
        new_style_attr (Some (AttrStr text)) inline_style =
          str_rstrip (CHR '';'') (text @ ''; '' @ inline_style))
   \<and> new_style_attr (Some (AttrList tokens)) inline_style =
        str_rstrip (CHR '';'') (str_join ''; '' (tokens @ [inline_style]))
   \<and> (distinct found_styled_items \<and> item \<in> set found_styled_items \<longrightarrow>
        style_attr (style_items inline_style s found_styled_items) item =
          Some (AttrStr (new_style_attr (style_attr s item) inline_style)))
   \<and> new_style_attr (Some (AttrStr ''font-weight:bold'')) ''color:red;'' =
        ''font-weight:bold; color:red''"
proof -
  have ex: "new_style_attr (Some (AttrStr ''font-weight:bold'')) ''color:red;'' =
        ''font-weight:bold; color:red''"
    by (simp add: new_style_attr_def is_falsy_def str_rstrip_def)
  show ?thesis
    using new_style_attr_absent new_style_attr_string new_style_attr_tokens ex
    by (simp add: style_items_distinct)
qed

theorem inline_applier_new_style_witness:
  "''font-weight:bold'' \<noteq> []
   \<and> new_style_attr (Some (AttrStr ''font-weight:bold'')) ''color:red;'' =
       str_rstrip (CHR '';'') (''font-weight:bold'' @ ''; '' @ ''color:red;'')
   \<and> str_rstrip (CHR '';'') (''font-weight:bold'' @ ''; '' @ ''color:red;'') =
       ''font-weight:bold; color:red''
   \<and> distinct [0, 2::nat] \<and> 2 \<in> set [0, 2::nat]
   \<and> style_attr
        (style_items ''color:red;''
           \<lparr>style_tags = [], style_attr = (\<lambda>i. None)(2 \<mapsto> AttrStr ''font-weight:bold''),
            has_head = True, head_appended = []\<rparr> [0, 2]) 2 =
       Some (AttrStr ''font-weight:bold; color:red'')"
proof -
  have h1: "''font-weight:bold'' \<noteq> []" by simp
  have h2: "distinct [0, 2::nat] \<and> 2 \<in> set [0, 2::nat]" by simp
  have v: "str_rstrip (CHR '';'') (''font-weight:bold'' @ ''; '' @ ''color:red;'') =
       ''font-weight:bold; color:red''"
    by (simp add: str_rstrip_def)
  from inline_applier_new_style
         [of "''color:red;''" "''font-weight:bold''" "[]" "[0, 2]" 2
             "\<lparr>style_tags = [], style_attr = (\<lambda>i. None)(2 \<mapsto> AttrStr ''font-weight:bold''),
               has_head = True, head_appended = []\<rparr>"] h1 h2
  have "new_style_attr (Some (AttrStr ''font-weight:bold'')) ''color:red;'' =
          str_rstrip (CHR '';'') (''font-weight:bold'' @ ''; '' @ ''color:red;'')
        \<and> style_attr
            (style_items ''color:red;''
              \<lparr>style_tags = [], style_attr = (\<lambda>i. None)(2 \<mapsto> AttrStr ''font-weight:bold''),
               has_head = True, head_appended = []\<rparr> [0, 2]) 2 =
          Some (AttrStr (new_style_attr (Some (AttrStr ''font-weight:bold'')) ''color:red;''))"
    by simp
  with h1 h2 v show ?thesis by simp
qed

text \<open>
  C5 as stated fails for the empty string: the attribute is a single string, but the code
  does not join it with the candidate, so no separator is put in front.
\<close>

theorem inline_applier_new_style_counterexample:
  "new_style_attr (Some (AttrStr '''')) ''color:red;'' = ''color:red''
   \<and> str_rstrip (CHR '';'') (str_join ''; '' ['''', ''color:red;'']) = ''; color:red''"
  by (simp add: new_style_attr_def is_falsy_def str_rstrip_def)

text \<open>
  C10. An element whose style attribute is the empty string or the empty token list gets
  the value of the absent-attribute branch: the candidate without its trailing
  semicolons, that is, a prefix of the candidate that is followed by semicolons only and
  does not itself end in a semicolon.
\<close>

theorem empty_style_attr_takes_absent_branch:
  "(previous = Some (AttrStr []) \<or> previous = Some (AttrList []) \<longrightarrow>
      new_style_attr previous inline_style = new_style_attr None inline_style
    \<and> new_style_attr previous inline_style = str_rstrip (CHR '';'') inline_style
    \<and> (\<exists>n. inline_style = new_style_attr previous inline_style @ replicate n (CHR '';''))
    \<and> (\<forall>y. new_style_attr previous inline_style \<noteq> y @ '';''))
   \<and> (style_attr s item = Some (AttrStr []) \<or> style_attr s item = Some (AttrList []) \<longrightarrow>
        style_attr (style_item inline_style s item) item =
          Some (AttrStr (str_rstrip (CHR '';'') inline_style)))"
proof -
  have a: "previous = Some (AttrStr []) \<or> previous = Some (AttrList []) \<Longrightarrow>
      new_style_attr previous inline_style = new_style_attr None inline_style
    \<and> new_style_attr previous inline_style = str_rstrip (CHR '';'') inline_style
    \<and> (\<exists>n. inline_style = new_style_attr previous inline_style @ replicate n (CHR '';''))
    \<and> (\<forall>y. new_style_attr previous inline_style \<noteq> y @ '';'')"
    using str_rstrip_decomp [of inline_style "CHR '';''"] str_rstrip_no_trailing [of "CHR '';''" inline_style]
    by (simp add: new_style_attr_empty new_style_attr_absent) blast
  have b: "style_attr s item = Some (AttrStr []) \<or> style_attr s item = Some (AttrList []) \<Longrightarrow>
        style_attr (style_item inline_style s item) item =
          Some (AttrStr (str_rstrip (CHR '';'') inline_style))"
    by (simp add: style_attr_style_item new_style_attr_empty)
  from a b show ?thesis by blast
qed

theorem empty_style_attr_takes_absent_branch_witness:
  "new_style_attr (Some (AttrStr [])) ''color:red;'' = ''color:red''
   \<and> new_style_attr (Some (AttrList [])) ''color:red;;'' = ''color:red''
   \<and> style_attr \<lparr>style_tags = [], style_attr = (\<lambda>i. None)(1 \<mapsto> AttrStr []),
                  has_head = True, head_appended = []\<rparr> 1 = Some (AttrStr [])
   \<and> style_attr
        (style_item ''color:red;''
           \<lparr>style_tags = [], style_attr = (\<lambda>i. None)(1 \<mapsto> AttrStr []),
            has_head = True, head_appended = []\<rparr> 1) 1 = Some (AttrStr ''color:red'')"
proof -
  have v1: "str_rstrip (CHR '';'') ''color:red;'' = ''color:red''"
    by (simp add: str_rstrip_def)
  have v2: "str_rstrip (CHR '';'') ''color:red;;'' = ''color:red''"
    by (simp add: str_rstrip_def)
  from empty_style_attr_takes_absent_branch
         [of "Some (AttrStr [])" "''color:red;''"
             "\<lparr>style_tags = [], style_attr = (\<lambda>i. None)(1 \<mapsto> AttrStr []),
               has_head = True, head_appended = []\<rparr>" 1]
  have w1: "new_style_attr (Some (AttrStr [])) ''color:red;'' = ''color:red''
        \<and> style_attr
            (style_item ''color:red;''
              \<lparr>style_tags = [], style_attr = (\<lambda>i. None)(1 \<mapsto> AttrStr []),
               has_head = True, head_appended = []\<rparr> 1) 1 = Some (AttrStr ''color:red'')"
    by (simp add: v1 new_style_attr_absent)
  from empty_style_attr_takes_absent_branch
         [of "Some (AttrList [])" "''color:red;;''"
             "\<lparr>style_tags = [], style_attr = (\<lambda>i. None)(1 \<mapsto> AttrStr []),
               has_head = True, head_appended = []\<rparr>" 1]
  have w2: "new_style_attr (Some (AttrList [])) ''color:red;;'' = ''color:red''"
    by (simp add: v2 new_style_attr_absent)
  from w1 w2 show ?thesis by simp
qed

section \<open>The silent flag\<close>

text \<open>
  C8. With the silent flag set and with it unset \<open>main\<close> gives the logger of the parser
  the same level, 50, and the two runs have the same result.
\<close>

theorem silent_flag_same_level:
  "log_level (args\<lparr>silent := True\<rparr>) = log_level (args\<lparr>silent := False\<rparr>)
   \<and> log_level args = 50
   \<and> main parseString sel (args\<lparr>silent := True\<rparr>) s =
       main parseString sel (args\<lparr>silent := False\<rparr>) s"
  by (simp add: main_def log_level_def CRITICAL_def FATAL_def)

section \<open>Residual Writer\<close>

text \<open>
  C1 does not hold of the code. For a head that holds one style block with the rule
  \<open>a, b:hover{color:red}\<close>, the loop of \<open>main\<close> does collect the pair of \<open>b:hover\<close> and
  its style in \<open>pseudo_style_declarations\<close>, but nothing reads that dictionary: the style
  element appended to the head holds the failed fragments only, here none, and the rule
  for \<open>b:hover\<close> is gone from the written tree.
\<close>

theorem main_drops_pseudo_selector_rule:
  "divide_declarations_from_style_tags [Some ''a, b:hover{color:red}''] =
     Inr [''a, b:hover{color:red}'']
   \<and> process_css_declarations example_parser [''a, b:hover{color:red}''] =
       Inr \<lparr>successful_declaration = [(''a, b:hover'', [''color:red;''])],
            failed_declaration = []\<rparr>
   \<and> fst (resolve_loop (\<lambda>tree selector. if selector = ''a'' then [0] else [])
           (inline_css_declarations [(''a, b:hover'', [''color:red;''])]) []
           \<lparr>style_tags = [Some ''a, b:hover{color:red}''], style_attr = (\<lambda>i. None),
            has_head = True, head_appended = []\<rparr>) =
       [([''b:hover''], ''color:red;'')]
   \<and> main (\<lambda>level. example_parser) (\<lambda>tree selector. if selector = ''a'' then [0] else [])
        \<lparr>input_html = ''in'', output_html = ''out'', silent = False\<rparr>
        \<lparr>style_tags = [Some ''a, b:hover{color:red}''], style_attr = (\<lambda>i. None),
         has_head = True, head_appended = []\<rparr> =
       Inr (50, \<lparr>style_tags = [], style_attr = (\<lambda>i. None)(0 \<mapsto> AttrStr ''color:red''),
                 has_head = True, head_appended = [[]]\<rparr>)"
proof -
  have d: "divide_declarations_from_style_tags [Some ''a, b:hover{color:red}''] =
     Inr [''a, b:hover{color:red}'']"
    by (simp add: divide_declarations_from_style_tags_def add_closing_tag_def str_strip_def
        isspace_def)
  have p: "process_css_declarations example_parser [''a, b:hover{color:red}''] =
       Inr \<lparr>successful_declaration = [(''a, b:hover'', [''color:red;''])],
            failed_declaration = []\<rparr>"
    by (simp add: example_parser_def eval_defs)
  have i: "inline_css_declarations [(''a, b:hover'', [''color:red;''])] =
             [([''a'', ''b:hover''], ''color:red;'')]"
    by (simp add: inline_css_declarations_def str_strip_def isspace_def)
  have r: "resolve_loop (\<lambda>tree selector. if selector = ''a'' then [0] else [])
             [([''a'', ''b:hover''], ''color:red;'')] []
             \<lparr>style_tags = [Some ''a, b:hover{color:red}''], style_attr = (\<lambda>i. None),
              has_head = True, head_appended = []\<rparr> =
           ([([''b:hover''], ''color:red;'')],
            \<lparr>style_tags = [Some ''a, b:hover{color:red}''],
             style_attr = (\<lambda>i. None)(0 \<mapsto> AttrStr ''color:red''),
             has_head = True, head_appended = []\<rparr>)"
    by (simp add: eval_resolver)
  have m: "main (\<lambda>level. example_parser) (\<lambda>tree selector. if selector = ''a'' then [0] else [])
        \<lparr>input_html = ''in'', output_html = ''out'', silent = False\<rparr>
        \<lparr>style_tags = [Some ''a, b:hover{color:red}''], style_attr = (\<lambda>i. None),
         has_head = True, head_appended = []\<rparr> =
       Inr (50, \<lparr>style_tags = [], style_attr = (\<lambda>i. None)(0 \<mapsto> AttrStr ''color:red''),
                 has_head = True, head_appended = [[]]\<rparr>)"
    unfolding main_def Let_def
    by (simp add: d p i log_level_def FATAL_def CRITICAL_def remove_style_tags_from_soup_def
        insert_unprocessed_declarations_def eval_resolver)
  from d p i r m show ?thesis by simp
qed


end
